theory Spec2Isabelle
  imports Main "HOL-Library.Word"
begin

section \<open>Values, exceptions and the C library calls the functions make\<close>

text \<open>
  The file \<^verbatim>\<open>functionexpression.cpp\<close> uses the class \<^verbatim>\<open>NValue\<close>, the exception
  \<^verbatim>\<open>SQLException\<close> and the enumerations \<^verbatim>\<open>ValueType\<close> and \<^verbatim>\<open>ExpressionType\<close>
  without defining them: their headers are not among the sources. What follows keeps
  the names the file uses.
\<close>

text \<open>
  Modelled from the spec: the enumeration \<^verbatim>\<open>ValueType\<close> (its header is missing). The
  spec's value domain is integer, floating-point, fixed-point decimal, text/binary,
  timestamp and null; the file names \<^verbatim>\<open>VALUE_TYPE_VARCHAR\<close> only.
\<close>

datatype ValueType =
    VALUE_TYPE_NULL
  | VALUE_TYPE_BIGINT
  | VALUE_TYPE_DOUBLE
  | VALUE_TYPE_DECIMAL
  | VALUE_TYPE_VARCHAR
  | VALUE_TYPE_VARBINARY
  | VALUE_TYPE_TIMESTAMP

text \<open>
  Modelled from the spec: the class \<^verbatim>\<open>NValue\<close> (its header is missing), an immutable
  tagged scalar. A value is given by what the accessors called in the file observe of it:
  its type tag, whether it is SQL NULL, what casting it to a 64-bit integer yields
  (\<open>None\<close> when the cast throws) and, for a text, its bytes.
\<close>

record NValue =
  getValueType :: ValueType
  isNull :: bool
  asBigInt :: "64 word option"
  getObjectValue :: string

text \<open>
  Modelled from the spec: what the file throws, by means declared elsewhere.
  \<^verbatim>\<open>throw SQLException(msgcode, msgtext)\<close> is the spec's UserRaisedError, with its code
  and its message text; \<^verbatim>\<open>throwCastSQLException(from, to)\<close> is the spec's CastFailure;
  a failed \<^verbatim>\<open>assert\<close> is the spec's ArityViolation.
\<close>

datatype exception =
    SQLException string string
  | CastSQLException ValueType ValueType
  | AssertionFailed

text \<open>
  Modelled from the spec: \<^verbatim>\<open>NValue::castAsBigIntAndGetValue\<close>, which returns the value
  as a 64-bit integer or throws a cast failure (the file: "let cast throw if invalid").
\<close>

definition castAsBigIntAndGetValue :: "NValue \<Rightarrow> exception + 64 word" where
  "castAsBigIntAndGetValue v =
     (case asBigInt v of
        None \<Rightarrow> Inl (CastSQLException (getValueType v) VALUE_TYPE_BIGINT)
      | Some intValue \<Rightarrow> Inr intValue)"

text \<open>
  Modelled from the spec: \<^verbatim>\<open>NValue::getObjectLength\<close>, the number of bytes of a text
  (the file stores it in \<^verbatim>\<open>valueUTF8Length\<close>). A length is not negative: it is a
  \<open>nat\<close>.
\<close>

definition getObjectLength :: "NValue \<Rightarrow> nat" where
  "getObjectLength v = length (getObjectValue v)"

text \<open>
  Modelled from the spec: three kinds of value, for the examples. An integer, which
  casts to itself; a non-null text, whose cast to an integer fails (the spec's
  CastFailure lists "text to integer"); the SQL NULL of a type.
\<close>

definition integerValue :: "64 word \<Rightarrow> NValue" where
  "integerValue c =
     \<lparr>getValueType = VALUE_TYPE_BIGINT, isNull = False, asBigInt = Some c, getObjectValue = []\<rparr>"

definition textValue :: "string \<Rightarrow> NValue" where
  "textValue s =
     \<lparr>getValueType = VALUE_TYPE_VARCHAR, isNull = False, asBigInt = None, getObjectValue = s\<rparr>"

definition nullValue :: "ValueType \<Rightarrow> NValue" where
  "nullValue t =
     \<lparr>getValueType = t, isNull = True, asBigInt = None, getObjectValue = []\<rparr>"

subsection \<open>\<^verbatim>\<open>snprintf\<close>\<close>

text \<open>
  \<^verbatim>\<open>snprintf(buffer, n, "%ld", (long) intValue)\<close>: the decimal digits of a signed 64-bit
  integer, with a minus sign when it is negative (\<^verbatim>\<open>long\<close> has 64 bits on the platforms
  the engine is built for). At most 20 characters, so the 1024 bytes of the buffer never
  cut it.
\<close>

definition digit_char :: "nat \<Rightarrow> char" where
  "digit_char d = ''0123456789'' ! d"

fun decimal_digits :: "nat \<Rightarrow> string" where
  "decimal_digits n =
     (if n < 10 then [digit_char n]
      else decimal_digits (n div 10) @ [digit_char (n mod 10)])"

declare decimal_digits.simps [simp del]

definition snprintf_ld :: "64 word \<Rightarrow> string" where
  "snprintf_ld intValue =
     (if sint intValue < 0 then CHR ''-'' # decimal_digits (nat (- sint intValue))
      else decimal_digits (nat (sint intValue)))"

text \<open>
  Reading a decimal rendering back: an optional minus sign, then digits. It is the
  specification of \<open>snprintf_ld\<close>, not part of the program.
\<close>

definition decimal_value :: "string \<Rightarrow> nat" where
  "decimal_value ds = foldl (\<lambda>a c. 10 * a + (of_char c - 48)) 0 ds"

definition decimal_reading :: "string \<Rightarrow> int" where
  "decimal_reading s =
     (case s of
        [] \<Rightarrow> 0
      | c # ds \<Rightarrow>
          if c = CHR ''-'' then - int (decimal_value ds) else int (decimal_value (c # ds)))"

text \<open>
  \<^verbatim>\<open>snprintf(buffer, n, "%s", chars)\<close>: the C library writes at most \<open>n\<close> bytes, the
  terminating NUL included, so at most \<open>n - 1\<close> characters of the string, which ends at
  its first NUL byte. With \<open>n = 0\<close> it writes nothing and the buffer keeps what it held.
\<close>

definition c_str :: "string \<Rightarrow> string" where
  "c_str chars = takeWhile (\<lambda>c. c \<noteq> CHR 0x00) chars"

definition snprintf_s :: "string \<Rightarrow> nat \<Rightarrow> string \<Rightarrow> string" where
  "snprintf_s buffer n chars = (if n = 0 then buffer else take (n - 1) (c_str chars))"

text \<open>
  Modelled from the spec: the enumeration \<^verbatim>\<open>ExpressionType\<close> of function identities
  (its header is missing). The file names four of its members; \<open>EXPRESSION_TYPE_OTHER\<close>
  stands for every other member, by its number.
\<close>

datatype ExpressionType =
    EXPRESSION_TYPE_FUNCTION_ABS
  | EXPRESSION_TYPE_FUNCTION_SUBSTRING_FROM
  | EXPRESSION_TYPE_FUNCTION_SUBSTRING_FROM_FOR
  | EXPRESSION_TYPE_FUNCTION_SQL_ERROR
  | EXPRESSION_TYPE_OTHER nat

section \<open>What the file takes from elsewhere\<close>

text \<open>
  Constants of \<^verbatim>\<open>SQLException\<close>, the specialisations of \<^verbatim>\<open>NValue::callConstant\<close>,
  \<^verbatim>\<open>NValue::callUnary\<close> and \<^verbatim>\<open>NValue::call\<close> that other files define (absolute value
  and the two substring forms among them), the default-constructed \<^verbatim>\<open>NValue\<close> that
  fills \<^verbatim>\<open>std::vector<NValue> nValue(n)\<close>, and the bytes an uninitialised local
  \<^verbatim>\<open>char buffer[1024]\<close> holds before anything is written to it. They are parameters of
  the model.
\<close>

record externals =
  nonspecific_error_code_for_error_forced_by_user :: string
  specific_error_specified_by_user :: string
  callConstant_elsewhere :: "ExpressionType \<Rightarrow> exception + NValue"
  callUnary_elsewhere :: "ExpressionType \<Rightarrow> NValue \<Rightarrow> exception + NValue"
  call_elsewhere :: "ExpressionType \<Rightarrow> NValue list \<Rightarrow> exception + NValue"
  NValue_default :: NValue
  uninitialized_buffer :: string

section \<open>The forced SQL ERROR function\<close>

text \<open>
  \<^verbatim>\<open>NValue::callUnary<EXPRESSION_TYPE_FUNCTION_SQL_ERROR>\<close>. \<open>intValue\<close> starts at \<open>-1\<close>
  and the text branch leaves it there. The size given to \<^verbatim>\<open>snprintf\<close> in the text
  branch is \<^verbatim>\<open>std::min((int32_t)sizeof(buffer), valueUTF8Length)\<close>.
\<close>

definition callUnary_SQL_ERROR :: "externals \<Rightarrow> NValue \<Rightarrow> exception + NValue" where
  "callUnary_SQL_ERROR X this =
     (let buffer = uninitialized_buffer X;
          type = getValueType this
      in if type = VALUE_TYPE_VARCHAR then
           let intValue = (-1 :: 64 word);
               valueUTF8Length = getObjectLength this;
               valueChars = getObjectValue this;
               buffer = snprintf_s buffer (min 1024 valueUTF8Length) valueChars;
               msgcode = nonspecific_error_code_for_error_forced_by_user X;
               msgtext = buffer
           in if intValue \<noteq> 0 then Inl (SQLException msgcode msgtext) else Inr this
         else
           case castAsBigIntAndGetValue this of
             Inl e \<Rightarrow> Inl e
           | Inr intValue \<Rightarrow>
               let buffer = snprintf_ld intValue;
                   msgcode = buffer;
                   msgtext = specific_error_specified_by_user X
               in if intValue \<noteq> 0 then Inl (SQLException msgcode msgtext) else Inr this)"

text \<open>
  \<^verbatim>\<open>NValue::call<EXPRESSION_TYPE_FUNCTION_SQL_ERROR>\<close>, the two-argument form. It starts
  with \<^verbatim>\<open>assert(arguments.size() == 2)\<close>. The code is resolved first (a cast that throws
  ends the call there), then the message: \<open>resolve_msgtext\<close> is that second block of
  the function, on \<open>strValue = arguments[1]\<close>. The size given to \<^verbatim>\<open>snprintf\<close> for the
  message is \<^verbatim>\<open>std::min((int32_t)sizeof(buffer), valueUTF8Length)\<close>, and \<open>buffer2\<close> is
  not initialised.
\<close>

definition resolve_msgtext :: "externals \<Rightarrow> NValue \<Rightarrow> exception + string" where
  "resolve_msgtext X strValue =
     (if isNull strValue then Inr []
      else if getValueType strValue \<noteq> VALUE_TYPE_VARCHAR then
        Inl (CastSQLException (getValueType strValue) VALUE_TYPE_VARCHAR)
      else
        let buffer2 = uninitialized_buffer X;
            valueUTF8Length = getObjectLength strValue;
            valueChars = getObjectValue strValue;
            buffer2 = snprintf_s buffer2 (min 1024 valueUTF8Length) valueChars
        in Inr buffer2)"

definition call_SQL_ERROR :: "externals \<Rightarrow> NValue list \<Rightarrow> exception + NValue" where
  "call_SQL_ERROR X arguments =
     (if length arguments \<noteq> 2 then Inl AssertionFailed
      else
        let codeArg = arguments ! 0 in
        case (if isNull codeArg
              then Inr (-1, nonspecific_error_code_for_error_forced_by_user X)
              else case castAsBigIntAndGetValue codeArg of
                     Inl e \<Rightarrow> Inl e
                   | Inr intValue \<Rightarrow> Inr (intValue, snprintf_ld intValue)) of
          Inl e \<Rightarrow> Inl e
        | Inr (intValue, msgcode) \<Rightarrow>
            (case resolve_msgtext X (arguments ! 1) of
               Inl e \<Rightarrow> Inl e
             | Inr msgtext \<Rightarrow>
                 if intValue \<noteq> 0 then Inl (SQLException msgcode msgtext) else Inr codeArg))"

text \<open>
  The template dispatch: the two specialisations above for the forced error, the ones
  defined elsewhere for every other identity.
\<close>

definition callConstant :: "externals \<Rightarrow> ExpressionType \<Rightarrow> exception + NValue" where
  "callConstant X E = callConstant_elsewhere X E"

definition callUnary :: "externals \<Rightarrow> ExpressionType \<Rightarrow> NValue \<Rightarrow> exception + NValue" where
  "callUnary X E this =
     (if E = EXPRESSION_TYPE_FUNCTION_SQL_ERROR then callUnary_SQL_ERROR X this
      else callUnary_elsewhere X E this)"

definition call :: "externals \<Rightarrow> ExpressionType \<Rightarrow> NValue list \<Rightarrow> exception + NValue" where
  "call X E arguments =
     (if E = EXPRESSION_TYPE_FUNCTION_SQL_ERROR then call_SQL_ERROR X arguments
      else call_elsewhere X E arguments)"

section \<open>Expression nodes\<close>

text \<open>
  Modelled from the spec: the class \<^verbatim>\<open>AbstractExpression\<close> (its header is missing) and
  the nodes of other kinds (literals, column references, comparisons). A tree is one of
  the three function nodes of the file, with the template argument \<open>E\<close> as its first
  field, or a node of another kind, given by what its \<^verbatim>\<open>eval\<close> does: it reads the two
  rows, may have a side effect on a state \<open>'s\<close> that a test harness observes, and
  returns a value or throws.
\<close>

datatype ('t, 's) AbstractExpression =
    OtherExpression "'t \<Rightarrow> 't \<Rightarrow> 's \<Rightarrow> (exception + NValue) \<times> 's"
  | ConstantFunctionExpression ExpressionType
  | UnaryFunctionExpression ExpressionType "('t, 's) AbstractExpression"
  | GeneralFunctionExpression ExpressionType "('t, 's) AbstractExpression list"

text \<open>
  \<^verbatim>\<open>eval\<close> of the four kinds of node. The loop of \<^verbatim>\<open>GeneralFunctionExpression::eval\<close> is
  \<open>eval_loop\<close>: \<open>i\<close> runs from \<open>0\<close> to \<open>m_args.size()\<close> and the result of child \<open>i\<close> is
  stored in \<open>nValue[i]\<close>. An exception leaves the function where it is thrown, with the
  side effects made so far. The unary node asserts that its child pointer is not null;
  in the model a child is always a node.
\<close>

function
  eval :: "externals \<Rightarrow> ('t, 's) AbstractExpression \<Rightarrow> 't \<Rightarrow> 't \<Rightarrow> 's
             \<Rightarrow> (exception + NValue) \<times> 's"
  and eval_loop :: "externals \<Rightarrow> ('t, 's) AbstractExpression list \<Rightarrow> 't \<Rightarrow> 't \<Rightarrow> nat
             \<Rightarrow> NValue list \<Rightarrow> 's \<Rightarrow> (exception + NValue list) \<times> 's"
where
  "eval X (OtherExpression f) tuple1 tuple2 s = f tuple1 tuple2 s"
| "eval X (ConstantFunctionExpression E) tuple1 tuple2 s = (callConstant X E, s)"
| "eval X (UnaryFunctionExpression E m_child) tuple1 tuple2 s =
     (case eval X m_child tuple1 tuple2 s of
        (Inl e, s') \<Rightarrow> (Inl e, s')
      | (Inr v, s') \<Rightarrow> (callUnary X E v, s'))"
| "eval X (GeneralFunctionExpression E m_args) tuple1 tuple2 s =
     (case eval_loop X m_args tuple1 tuple2 0 (replicate (length m_args) (NValue_default X)) s of
        (Inl e, s') \<Rightarrow> (Inl e, s')
      | (Inr nValue, s') \<Rightarrow> (call X E nValue, s'))"
| "eval_loop X m_args tuple1 tuple2 i nValue s =
     (if i < length m_args then
        case eval X (m_args ! i) tuple1 tuple2 s of
          (Inl e, s') \<Rightarrow> (Inl e, s')
        | (Inr v, s') \<Rightarrow> eval_loop X m_args tuple1 tuple2 (i + 1) (nValue[i := v]) s'
      else (Inr nValue, s))"
  by pat_completeness auto
termination
proof -
  have child_smaller: "f (xs ! i) < size_list f xs" if "i < length xs"
    for f :: "('t, 's) AbstractExpression \<Rightarrow> nat" and xs i
    using that
  proof (induction xs arbitrary: i)
    case Nil
    then show ?case by simp
  next
    case (Cons a xs)
    show ?case
    proof (cases i)
      case 0
      then show ?thesis by simp
    next
      case (Suc j)
      with Cons.prems have "j < length xs" by simp
      from Cons.IH [OF this] Suc show ?thesis by simp
    qed
  qed
  show ?thesis
    by (relation "inv_image (less_than <*lex*> less_than)
          (\<lambda>x. case x of
             Inl (X, e, t1, t2, s) \<Rightarrow> (size e, 0)
           | Inr (X, args, t1, t2, i, nv, s) \<Rightarrow> (size_list size args, length args - i))")
       (auto simp: child_smaller)
qed

declare eval_loop.simps [simp del]

text \<open>
  The specification's reading of the n-ary node: the children are evaluated one after the
  other from the left, each once, the results collected in order; the first child that
  throws ends the evaluation. \<open>eval_loop\<close> is compared with it.
\<close>

fun children_left_to_right ::
  "('c \<Rightarrow> 's \<Rightarrow> (exception + NValue) \<times> 's) \<Rightarrow> 'c list \<Rightarrow> 's
     \<Rightarrow> (exception + NValue list) \<times> 's" where
  "children_left_to_right ev [] s = (Inr [], s)"
| "children_left_to_right ev (c # cs) s =
     (case ev c s of
        (Inl e, s') \<Rightarrow> (Inl e, s')
      | (Inr v, s') \<Rightarrow>
          (case children_left_to_right ev cs s' of
             (Inl e, s'') \<Rightarrow> (Inl e, s'')
           | (Inr vs, s'') \<Rightarrow> (Inr (v # vs), s'')))"

section \<open>Ownership: what is deleted\<close>

text \<open>
  The nodes and the argument vector live on the heap. The model records the \<^verbatim>\<open>delete\<close>
  statements a function executes, in order: \<open>Delete_vector\<close> for the container of the
  children (\<^verbatim>\<open>delete arguments\<close>, \<^verbatim>\<open>delete &m_args\<close>), \<open>Delete_node c\<close> for a node.
\<close>

datatype ('t, 's) heap_effect =
    Delete_vector
  | Delete_node "('t, 's) AbstractExpression"

text \<open>
  \<^verbatim>\<open>delete\<close> of a node runs its destructor: \<^verbatim>\<open>~UnaryFunctionExpression\<close> deletes its
  child, \<^verbatim>\<open>~GeneralFunctionExpression\<close> deletes its children from the last to the first
  and then the container.
\<close>

fun delete_expression :: "('t, 's) AbstractExpression \<Rightarrow> ('t, 's) heap_effect list" where
  "delete_expression (OtherExpression f) = [Delete_node (OtherExpression f)]"
| "delete_expression (ConstantFunctionExpression E) =
     [Delete_node (ConstantFunctionExpression E)]"
| "delete_expression (UnaryFunctionExpression E m_child) =
     delete_expression m_child @ [Delete_node (UnaryFunctionExpression E m_child)]"
| "delete_expression (GeneralFunctionExpression E m_args) =
     concat (map delete_expression (rev m_args)) @
     [Delete_vector, Delete_node (GeneralFunctionExpression E m_args)]"

section \<open>The factory\<close>

text \<open>
  \<^verbatim>\<open>ExpressionUtil::functionFactory(et, arguments)\<close>. The factory asserts that the pointer
  \<open>arguments\<close> is not null; the model takes the vector it points to. The result is the
  node returned (\<open>None\<close> for the null pointer \<open>ret = 0\<close>) and the \<^verbatim>\<open>delete\<close> statements
  executed.
\<close>

definition functionFactory ::
  "ExpressionType \<Rightarrow> ('t, 's) AbstractExpression list
     \<Rightarrow> ('t, 's) AbstractExpression option \<times> ('t, 's) heap_effect list" where
  "functionFactory et arguments =
     (case length arguments of
        0 \<Rightarrow> (None, [Delete_vector])
      | Suc 0 \<Rightarrow>
          ((if et = EXPRESSION_TYPE_FUNCTION_ABS then
              Some (UnaryFunctionExpression EXPRESSION_TYPE_FUNCTION_ABS (arguments ! 0))
            else if et = EXPRESSION_TYPE_FUNCTION_SQL_ERROR then
              Some (UnaryFunctionExpression EXPRESSION_TYPE_FUNCTION_SQL_ERROR (arguments ! 0))
            else None),
           [Delete_vector])
      | Suc (Suc n) \<Rightarrow>
          ((if et = EXPRESSION_TYPE_FUNCTION_SUBSTRING_FROM then
              Some (GeneralFunctionExpression EXPRESSION_TYPE_FUNCTION_SUBSTRING_FROM arguments)
            else if et = EXPRESSION_TYPE_FUNCTION_SUBSTRING_FROM_FOR then
              Some (GeneralFunctionExpression EXPRESSION_TYPE_FUNCTION_SUBSTRING_FROM_FOR
                      arguments)
            else if et = EXPRESSION_TYPE_FUNCTION_SQL_ERROR then
              Some (GeneralFunctionExpression EXPRESSION_TYPE_FUNCTION_SQL_ERROR arguments)
            else None),
           []))"

section \<open>The validation-error accumulator\<close>

text \<open>
  The Java class \<^verbatim>\<open>SchedulerValidationErrors\<close>: one field, \<open>m_errors\<close>, a list or
  \<^verbatim>\<open>null\<close>. A Java \<^verbatim>\<open>String\<close> argument or result is a \<open>string option\<close>, \<open>None\<close> for
  \<^verbatim>\<open>null\<close>.
\<close>

record SchedulerValidationErrors =
  m_errors :: "string list option"

definition new_SchedulerValidationErrors :: SchedulerValidationErrors where
  "new_SchedulerValidationErrors = \<lparr>m_errors = None\<rparr>"

definition addErrorMessage ::
  "string option \<Rightarrow> SchedulerValidationErrors \<Rightarrow> SchedulerValidationErrors" where
  "addErrorMessage error this =
     (case error of
        None \<Rightarrow> this
      | Some e \<Rightarrow>
          (case m_errors this of
             None \<Rightarrow> this\<lparr>m_errors := Some ([] @ [e])\<rparr>
           | Some errors \<Rightarrow> this\<lparr>m_errors := Some (errors @ [e])\<rparr>))"

definition hasErrors :: "SchedulerValidationErrors \<Rightarrow> bool" where
  "hasErrors this = (m_errors this \<noteq> None)"

text \<open>
  \<^verbatim>\<open>Joiner.on(separator).join(parts)\<close> of the Guava library: the first part, then for
  each further part the separator and the part, appended to one builder.
\<close>

definition Joiner_join :: "char \<Rightarrow> string list \<Rightarrow> string" where
  "Joiner_join separator parts =
     (case parts of
        [] \<Rightarrow> []
      | p # ps \<Rightarrow> foldl (\<lambda>builder q. builder @ [separator] @ q) p ps)"

definition getErrorMessage :: "SchedulerValidationErrors \<Rightarrow> string option" where
  "getErrorMessage this =
     (case m_errors this of
        None \<Rightarrow> None
      | Some errors \<Rightarrow> Some (Joiner_join (CHR 0x0A) errors))"

text \<open>
  The spec's words for the joined message: the messages in order, a single newline
  between two neighbours.
\<close>

fun newline_joined :: "string list \<Rightarrow> string" where
  "newline_joined [] = []"
| "newline_joined [m] = m"
| "newline_joined (m # ms) = m @ [CHR 0x0A] @ newline_joined ms"

text \<open>The messages of a sequence of calls that are not \<^verbatim>\<open>null\<close>, in order.\<close>

fun non_null :: "string option list \<Rightarrow> string list" where
  "non_null [] = []"
| "non_null (None # ms) = non_null ms"
| "non_null (Some m # ms) = m # non_null ms"

section \<open>Examples\<close>

text \<open>
  An instance of the parameters: a default code and a default message, an uninitialised
  buffer that holds four question marks, and for the functions defined elsewhere (which
  no example below calls) the operand or a null value.
\<close>

definition example_externals :: externals where
  "example_externals =
     \<lparr>nonspecific_error_code_for_error_forced_by_user = ''99999'',
      specific_error_specified_by_user = ''forced by user'',
      callConstant_elsewhere = (\<lambda>E. Inr (nullValue VALUE_TYPE_NULL)),
      callUnary_elsewhere = (\<lambda>E v. Inr v),
      call_elsewhere = (\<lambda>E vs. Inr (nullValue VALUE_TYPE_NULL)),
      NValue_default = nullValue VALUE_TYPE_NULL,
      uninitialized_buffer = ''????''\<rparr>"

text \<open>
  A child with an observable side effect, as a test harness would build it: each
  evaluation appends the number \<open>k\<close> of the child to a log, then returns the value or
  throws the exception \<open>r\<close>.
\<close>

definition probe :: "nat \<Rightarrow> exception + NValue \<Rightarrow> (unit, nat list) AbstractExpression" where
  "probe k r = OtherExpression (\<lambda>tuple1 tuple2 log. (r, log @ [k]))"

section \<open>The decimal rendering is read back\<close>

lemma digit_char_value: "d < 10 \<Longrightarrow> of_char (digit_char d) = (48 + d :: nat)"
proof -
  assume "d < 10"
  then have "d \<in> {0, 1, 2, 3, 4, 5, 6, 7, 8, 9}" by auto
  then show ?thesis by (auto simp: digit_char_def)
qed

lemma digit_char_not_minus: "d < 10 \<Longrightarrow> digit_char d \<noteq> CHR ''-''"
proof -
  assume "d < 10"
  then have "d \<in> {0, 1, 2, 3, 4, 5, 6, 7, 8, 9}" by auto
  then show ?thesis by (auto simp: digit_char_def)
qed

lemma decimal_value_snoc:
  "decimal_value (ds @ [c]) = 10 * decimal_value ds + (of_char c - 48)"
  by (simp add: decimal_value_def)

lemma decimal_value_digits: "decimal_value (decimal_digits n) = n"
proof (induction n rule: decimal_digits.induct)
  case (1 n)
  show ?case
  proof (cases "n < 10")
    case True
    then show ?thesis
      by (simp add: decimal_digits.simps [of n] decimal_value_def digit_char_value)
  next
    case False
    with 1 have "decimal_value (decimal_digits (n div 10)) = n div 10" by simp
    with False show ?thesis
      by (simp add: decimal_digits.simps [of n] decimal_value_snoc digit_char_value)
  qed
qed

lemma decimal_digits_first: "\<exists>d ds. d < 10 \<and> decimal_digits n = digit_char d # ds"
proof (induction n rule: decimal_digits.induct)
  case (1 n)
  show ?case
  proof (cases "n < 10")
    case True
    then show ?thesis by (auto simp: decimal_digits.simps [of n])
  next
    case False
    with 1 obtain d ds where "d < 10" "decimal_digits (n div 10) = digit_char d # ds" by auto
    with False show ?thesis by (auto simp: decimal_digits.simps [of n])
  qed
qed

lemma decimal_reading_snprintf_ld: "decimal_reading (snprintf_ld intValue) = sint intValue"
proof (cases "sint intValue < 0")
  case True
  then show ?thesis by (simp add: decimal_reading_def snprintf_ld_def decimal_value_digits)
next
  case False
  obtain d ds where d: "d < 10" "decimal_digits (nat (sint intValue)) = digit_char d # ds"
    using decimal_digits_first by blast
  have "decimal_value (digit_char d # ds) = nat (sint intValue)"
    using decimal_value_digits [of "nat (sint intValue)"] d by simp
  with False d show ?thesis
    by (simp add: decimal_reading_def snprintf_ld_def digit_char_not_minus)
qed

lemma snprintf_ld_5: "snprintf_ld 5 = ''5''"
  by (simp add: snprintf_ld_def decimal_digits.simps digit_char_def)

lemma snprintf_ld_7: "snprintf_ld 7 = ''7''"
  by (simp add: snprintf_ld_def decimal_digits.simps digit_char_def)

section \<open>What \<^verbatim>\<open>snprintf\<close> keeps of a text\<close>

text \<open>
  The size passed for a text is its length, with no room for the terminating NUL: a text
  of 1 to 1024 bytes without a NUL byte loses its last byte, a longer one is cut to 1023
  bytes, and for the empty text nothing is written.
\<close>

lemma snprintf_s_drops_last:
  "CHR 0x00 \<notin> set chars \<Longrightarrow> chars \<noteq> [] \<Longrightarrow> length chars \<le> 1024 \<Longrightarrow>
   snprintf_s buffer (min 1024 (length chars)) chars = butlast chars"
proof -
  assume nul: "CHR 0x00 \<notin> set chars" and ne: "chars \<noteq> []" and le: "length chars \<le> 1024"
  from nul have "c_str chars = chars"
    by (auto simp: c_str_def takeWhile_eq_all_conv)
  with ne le show ?thesis
    by (simp add: snprintf_s_def min_def butlast_conv_take)
qed

lemma snprintf_s_long:
  "CHR 0x00 \<notin> set chars \<Longrightarrow> 1024 \<le> length chars \<Longrightarrow>
   snprintf_s buffer (min 1024 (length chars)) chars = take 1023 chars"
proof -
  assume nul: "CHR 0x00 \<notin> set chars" and le: "1024 \<le> length chars"
  from nul have "c_str chars = chars"
    by (auto simp: c_str_def takeWhile_eq_all_conv)
  with le show ?thesis
    by (simp add: snprintf_s_def min_def)
qed

lemma snprintf_s_empty: "snprintf_s buffer (min 1024 (length [])) [] = buffer"
  by (simp add: snprintf_s_def)

section \<open>The forced SQL ERROR function, unary form\<close>

lemma callUnary_SQL_ERROR_text:
  "getValueType v = VALUE_TYPE_VARCHAR \<Longrightarrow>
   callUnary_SQL_ERROR X v =
     Inl (SQLException (nonspecific_error_code_for_error_forced_by_user X)
            (snprintf_s (uninitialized_buffer X) (min 1024 (length (getObjectValue v)))
               (getObjectValue v)))"
  by (simp add: callUnary_SQL_ERROR_def Let_def getObjectLength_def)

lemma callUnary_SQL_ERROR_not_text:
  "getValueType v \<noteq> VALUE_TYPE_VARCHAR \<Longrightarrow>
   callUnary_SQL_ERROR X v =
     (case asBigInt v of
        None \<Rightarrow> Inl (CastSQLException (getValueType v) VALUE_TYPE_BIGINT)
      | Some c \<Rightarrow>
          if c = 0 then Inr v
          else Inl (SQLException (snprintf_ld c) (specific_error_specified_by_user X)))"
  by (simp add: callUnary_SQL_ERROR_def castAsBigIntAndGetValue_def Let_def
      split: option.splits)

text \<open>
  C3. The unary forced-error function on an operand that is not a text and casts to the
  integer \<open>c\<close> (an integer operand of value \<open>c\<close> is one): for \<open>c = 0\<close> it returns the
  operand unchanged and throws nothing; otherwise it throws a \<open>SQLException\<close> whose code
  is the decimal rendering of \<open>c\<close> (read back, it is the signed value of \<open>c\<close>) and whose
  message is the default message.
\<close>

theorem callUnary_SQL_ERROR_integer:
  "getValueType v \<noteq> VALUE_TYPE_VARCHAR \<Longrightarrow> asBigInt v = Some c \<Longrightarrow>
   callUnary_SQL_ERROR X v =
     (if c = 0 then Inr v
      else Inl (SQLException (snprintf_ld c) (specific_error_specified_by_user X))) \<and>
   decimal_reading (snprintf_ld c) = sint c"
  by (simp add: callUnary_SQL_ERROR_not_text decimal_reading_snprintf_ld)

theorem callUnary_SQL_ERROR_integer_witness:
  "getValueType (integerValue 5) \<noteq> VALUE_TYPE_VARCHAR \<and>
   asBigInt (integerValue 5) = Some 5 \<and>
   callUnary_SQL_ERROR example_externals (integerValue 5) =
     Inl (SQLException ''5'' ''forced by user'') \<and>
   asBigInt (integerValue 0) = Some 0 \<and>
   callUnary_SQL_ERROR example_externals (integerValue 0) = Inr (integerValue 0)"
  using callUnary_SQL_ERROR_integer [of "integerValue 5" 5 example_externals]
    callUnary_SQL_ERROR_integer [of "integerValue 0" 0 example_externals]
  by (simp add: integerValue_def example_externals_def snprintf_ld_5)

text \<open>
  C4. The unary forced-error function on the text \<open>boom\<close> throws a \<open>SQLException\<close> with
  the default code, and its message is \<open>boo\<close>: \<^verbatim>\<open>snprintf\<close> is given the size 4, which
  leaves room for three characters and the terminating NUL.
\<close>

theorem callUnary_SQL_ERROR_boom:
  "callUnary_SQL_ERROR X (textValue ''boom'') =
     Inl (SQLException (nonspecific_error_code_for_error_forced_by_user X) ''boo'')"
  by (simp add: callUnary_SQL_ERROR_text textValue_def snprintf_s_def c_str_def)

text \<open>
  C10. The unary forced-error function throws on every operand of type text, with the
  default code; and when it returns a value, the operand is not a text, it casts to the
  integer zero, and the value returned is the operand.
\<close>

theorem callUnary_SQL_ERROR_text_always_throws:
  "(getValueType v = VALUE_TYPE_VARCHAR \<longrightarrow>
      (\<exists>msgtext. callUnary_SQL_ERROR X v =
         Inl (SQLException (nonspecific_error_code_for_error_forced_by_user X) msgtext))) \<and>
   (\<forall>r. callUnary_SQL_ERROR X v = Inr r \<longrightarrow>
      getValueType v \<noteq> VALUE_TYPE_VARCHAR \<and> asBigInt v = Some 0 \<and> r = v)"
proof (cases "getValueType v = VALUE_TYPE_VARCHAR")
  case True
  then show ?thesis by (simp add: callUnary_SQL_ERROR_text)
next
  case False
  then show ?thesis
    by (auto simp: callUnary_SQL_ERROR_not_text split: option.splits if_splits)
qed

theorem callUnary_SQL_ERROR_text_always_throws_witness:
  "getValueType (textValue ''boom'') = VALUE_TYPE_VARCHAR \<and>
   (\<exists>msgtext. callUnary_SQL_ERROR example_externals (textValue ''boom'') =
      Inl (SQLException ''99999'' msgtext)) \<and>
   callUnary_SQL_ERROR example_externals (integerValue 0) = Inr (integerValue 0) \<and>
   getValueType (integerValue 0) \<noteq> VALUE_TYPE_VARCHAR \<and>
   asBigInt (integerValue 0) = Some 0"
proof -
  have varchar: "getValueType (textValue ''boom'') = VALUE_TYPE_VARCHAR"
    by (simp add: textValue_def)
  have zero: "callUnary_SQL_ERROR example_externals (integerValue 0) = Inr (integerValue 0)"
    by (simp add: callUnary_SQL_ERROR_not_text integerValue_def)
  from callUnary_SQL_ERROR_text_always_throws [of "textValue ''boom''" example_externals] varchar
  have "\<exists>msgtext. callUnary_SQL_ERROR example_externals (textValue ''boom'') =
      Inl (SQLException ''99999'' msgtext)"
    by (simp add: example_externals_def)
  moreover
  from callUnary_SQL_ERROR_text_always_throws [of "integerValue 0" example_externals] zero
  have "getValueType (integerValue 0) \<noteq> VALUE_TYPE_VARCHAR \<and> asBigInt (integerValue 0) = Some 0"
    by blast
  ultimately show ?thesis using varchar zero by simp
qed

section \<open>The forced SQL ERROR function, two-argument form\<close>

lemma resolve_msgtext_null: "isNull strValue \<Longrightarrow> resolve_msgtext X strValue = Inr []"
  by (simp add: resolve_msgtext_def)

lemma resolve_msgtext_not_text:
  "\<not> isNull strValue \<Longrightarrow> getValueType strValue \<noteq> VALUE_TYPE_VARCHAR \<Longrightarrow>
   resolve_msgtext X strValue =
     Inl (CastSQLException (getValueType strValue) VALUE_TYPE_VARCHAR)"
  by (simp add: resolve_msgtext_def)

lemma resolve_msgtext_text:
  "\<not> isNull strValue \<Longrightarrow> getValueType strValue = VALUE_TYPE_VARCHAR \<Longrightarrow>
   resolve_msgtext X strValue =
     Inr (snprintf_s (uninitialized_buffer X) (min 1024 (length (getObjectValue strValue)))
            (getObjectValue strValue))"
  by (simp add: resolve_msgtext_def getObjectLength_def Let_def)

lemma call_SQL_ERROR_code:
  "\<not> isNull codeArg \<Longrightarrow> asBigInt codeArg = Some c \<Longrightarrow>
   call_SQL_ERROR X [codeArg, strValue] =
     (case resolve_msgtext X strValue of
        Inl e \<Rightarrow> Inl e
      | Inr msgtext \<Rightarrow>
          if c = 0 then Inr codeArg else Inl (SQLException (snprintf_ld c) msgtext))"
  by (simp add: call_SQL_ERROR_def castAsBigIntAndGetValue_def split: sum.splits)

lemma call_SQL_ERROR_null_code:
  "isNull codeArg \<Longrightarrow>
   call_SQL_ERROR X [codeArg, strValue] =
     (case resolve_msgtext X strValue of
        Inl e \<Rightarrow> Inl e
      | Inr msgtext \<Rightarrow>
          Inl (SQLException (nonspecific_error_code_for_error_forced_by_user X) msgtext))"
  by (simp add: call_SQL_ERROR_def split: sum.splits)

text \<open>
  A second argument that is neither null nor a text makes the call throw a cast failure,
  whatever the first argument is: either the cast of the code has thrown already, or the
  check of the message does.
\<close>

lemma call_SQL_ERROR_message_not_text:
  "\<not> isNull strValue \<Longrightarrow> getValueType strValue \<noteq> VALUE_TYPE_VARCHAR \<Longrightarrow>
   \<exists>from to. call_SQL_ERROR X [codeArg, strValue] = Inl (CastSQLException from to)"
  by (simp add: call_SQL_ERROR_def castAsBigIntAndGetValue_def resolve_msgtext_not_text
      split: option.splits)

lemma call_SQL_ERROR_assert:
  "(call_SQL_ERROR X arguments = Inl AssertionFailed) = (length arguments \<noteq> 2)"
  by (auto simp: call_SQL_ERROR_def resolve_msgtext_def castAsBigIntAndGetValue_def Let_def
      split: sum.splits option.splits prod.splits if_splits)

text \<open>
  C5. The two-argument forced-error function with a first argument that is not null and
  casts to the integer \<open>c\<close>, and a null second argument: for \<open>c = 0\<close> it returns the code
  argument and throws nothing; otherwise it throws a \<open>SQLException\<close> whose code is the
  decimal rendering of \<open>c\<close> and whose message is empty.
\<close>

theorem call_SQL_ERROR_code_and_null_message:
  "\<not> isNull codeArg \<Longrightarrow> asBigInt codeArg = Some c \<Longrightarrow> isNull strValue \<Longrightarrow>
   call_SQL_ERROR X [codeArg, strValue] =
     (if c = 0 then Inr codeArg else Inl (SQLException (snprintf_ld c) [])) \<and>
   decimal_reading (snprintf_ld c) = sint c"
  by (simp add: call_SQL_ERROR_code resolve_msgtext_null decimal_reading_snprintf_ld)

theorem call_SQL_ERROR_code_and_null_message_witness:
  "\<not> isNull (integerValue 7) \<and> asBigInt (integerValue 7) = Some 7 \<and>
   isNull (nullValue VALUE_TYPE_VARCHAR) \<and>
   call_SQL_ERROR example_externals [integerValue 7, nullValue VALUE_TYPE_VARCHAR] =
     Inl (SQLException ''7'' []) \<and>
   call_SQL_ERROR example_externals [integerValue 0, nullValue VALUE_TYPE_VARCHAR] =
     Inr (integerValue 0)"
  using call_SQL_ERROR_code_and_null_message
      [of "integerValue 7" 7 "nullValue VALUE_TYPE_VARCHAR" example_externals]
    call_SQL_ERROR_code_and_null_message
      [of "integerValue 0" 0 "nullValue VALUE_TYPE_VARCHAR" example_externals]
  by (simp add: integerValue_def nullValue_def snprintf_ld_7)

text \<open>
  C6. The two-argument forced-error function with the code 7 and the text \<open>boom\<close> throws
  a \<open>SQLException\<close> with the code \<open>7\<close> and the message \<open>boo\<close>; with a null code and the
  text \<open>failure\<close> it throws one with the default code and the message \<open>failur\<close>. The
  size given to \<^verbatim>\<open>snprintf\<close> is the length of the text, which leaves no room for its
  last character.
\<close>

theorem call_SQL_ERROR_text_message_boom:
  "call_SQL_ERROR X [integerValue 7, textValue ''boom''] = Inl (SQLException ''7'' ''boo'') \<and>
   call_SQL_ERROR X [nullValue VALUE_TYPE_BIGINT, textValue ''failure''] =
     Inl (SQLException (nonspecific_error_code_for_error_forced_by_user X) ''failur'')"
proof -
  have "resolve_msgtext X (textValue ''boom'') = Inr ''boo''"
    by (simp add: resolve_msgtext_text textValue_def snprintf_s_def c_str_def)
  moreover have "resolve_msgtext X (textValue ''failure'') = Inr ''failur''"
    by (simp add: resolve_msgtext_text textValue_def snprintf_s_def c_str_def)
  moreover have "\<not> isNull (integerValue 7)" "asBigInt (integerValue 7) = Some 7"
    "isNull (nullValue VALUE_TYPE_BIGINT)"
    by (simp_all add: integerValue_def nullValue_def)
  ultimately show ?thesis
    by (simp add: call_SQL_ERROR_code call_SQL_ERROR_null_code snprintf_ld_7)
qed

section \<open>The loop of the n-ary node\<close>

text \<open>
  From index \<open>i\<close> on, the loop evaluates the children \<open>drop i m_args\<close> from the left and
  stores their values behind the first \<open>i\<close> slots of \<open>nValue\<close>.
\<close>

lemma eval_loop_children:
  "length nValue = length m_args \<Longrightarrow> i \<le> length m_args \<Longrightarrow>
   eval_loop X m_args tuple1 tuple2 i nValue s =
     (case children_left_to_right (\<lambda>c. eval X c tuple1 tuple2) (drop i m_args) s of
        (Inl e, s') \<Rightarrow> (Inl e, s')
      | (Inr vs, s') \<Rightarrow> (Inr (take i nValue @ vs), s'))"
proof (induction "length m_args - i" arbitrary: i nValue s)
  case 0
  then have "i = length m_args" by simp
  with 0 show ?case by (simp add: eval_loop.simps)
next
  case (Suc n)
  then have i: "i < length m_args" by simp
  have drop: "drop i m_args = m_args ! i # drop (Suc i) m_args"
    using i by (simp add: Cons_nth_drop_Suc)
  show ?case
  proof (cases "eval X (m_args ! i) tuple1 tuple2 s")
    case (Pair r s')
    show ?thesis
    proof (cases r)
      case (Inl e)
      with Pair i drop show ?thesis by (simp add: eval_loop.simps)
    next
      case (Inr v)
      have n: "n = length m_args - Suc i" using Suc.hyps(2) by simp
      have len': "length (nValue[i := v]) = length m_args" using Suc.prems by simp
      have le: "Suc i \<le> length m_args" using i by simp
      have tk: "take (Suc i) (nValue[i := v]) = take i nValue @ [v]"
        using i Suc.prems by (simp add: take_Suc_conv_app_nth)
      from Suc.hyps(1) [OF n len' le]
      have "eval_loop X m_args tuple1 tuple2 (Suc i) (nValue[i := v]) s' =
         (case children_left_to_right (\<lambda>c. eval X c tuple1 tuple2) (drop (Suc i) m_args) s' of
            (Inl e, s'') \<Rightarrow> (Inl e, s'')
          | (Inr vs, s'') \<Rightarrow> (Inr (take (Suc i) (nValue[i := v]) @ vs), s''))" .
      with Pair Inr i drop tk show ?thesis
        by (simp add: eval_loop.simps split: prod.splits sum.splits)
    qed
  qed
qed

lemma eval_General:
  "eval X (GeneralFunctionExpression E m_args) tuple1 tuple2 s =
     (case children_left_to_right (\<lambda>c. eval X c tuple1 tuple2) m_args s of
        (Inl e, s') \<Rightarrow> (Inl e, s')
      | (Inr nValue, s') \<Rightarrow> (call X E nValue, s'))"
  by (simp add: eval_loop_children split: prod.splits sum.splits)

lemma children_left_to_right_length:
  "children_left_to_right ev cs s = (Inr vs, s') \<Longrightarrow> length vs = length cs"
  by (induction cs arbitrary: s vs) (auto split: prod.splits sum.splits)

lemma children_left_to_right_append:
  "children_left_to_right ev (cs @ ds) s =
     (case children_left_to_right ev cs s of
        (Inl e, s') \<Rightarrow> (Inl e, s')
      | (Inr vs, s') \<Rightarrow>
          (case children_left_to_right ev ds s' of
             (Inl e, s'') \<Rightarrow> (Inl e, s'')
           | (Inr ws, s'') \<Rightarrow> (Inr (vs @ ws), s'')))"
  by (induction cs arbitrary: s) (auto split: prod.splits sum.splits)

lemma eval_probe: "eval X (probe k r) tuple1 tuple2 log = (r, log @ [k])"
  by (simp add: probe_def)

lemma children_probes_return:
  "children_left_to_right (\<lambda>c. eval X c tuple1 tuple2)
     (map (\<lambda>(k, v). probe k (Inr v)) kvs) log = (Inr (map snd kvs), log @ map fst kvs)"
  by (induction kvs arbitrary: log) (auto simp: eval_probe split: prod.splits)

lemma eval_probes_return:
  "eval X (GeneralFunctionExpression E (map (\<lambda>(k, v). probe k (Inr v)) kvs))
     tuple1 tuple2 log =
     (call X E (map snd kvs), log @ map fst kvs)"
  by (simp del: eval.simps(4) add: eval_General children_probes_return)

lemma eval_probe_throws:
  "eval X (GeneralFunctionExpression E
       (map (\<lambda>(k, v). probe k (Inr v)) kvs @ probe k (Inl e) # rest)) tuple1 tuple2 log =
     (Inl e, log @ map fst kvs @ [k])"
  by (simp del: eval.simps(4)
      add: eval_General children_left_to_right_append children_probes_return eval_probe)

section \<open>What the factory builds and what it deletes\<close>

lemma functionFactory_unary:
  "length arguments = 1 \<Longrightarrow>
   et = EXPRESSION_TYPE_FUNCTION_ABS \<or> et = EXPRESSION_TYPE_FUNCTION_SQL_ERROR \<Longrightarrow>
   functionFactory et arguments =
     (Some (UnaryFunctionExpression et (arguments ! 0)), [Delete_vector])"
  by (auto simp: functionFactory_def)

lemma functionFactory_general:
  "2 \<le> length arguments \<Longrightarrow>
   et = EXPRESSION_TYPE_FUNCTION_SUBSTRING_FROM \<or>
   et = EXPRESSION_TYPE_FUNCTION_SUBSTRING_FROM_FOR \<or>
   et = EXPRESSION_TYPE_FUNCTION_SQL_ERROR \<Longrightarrow>
   functionFactory et arguments = (Some (GeneralFunctionExpression et arguments), [])"
  by (auto simp: functionFactory_def split: nat.splits)

text \<open>
  A pair of identity and arity that is not registered gives no node; the container is
  deleted for the arities 0 and 1 and for no other; and no path of the factory deletes a
  child node.
\<close>

lemma functionFactory_not_registered:
  "\<not> (length arguments = 1 \<and>
        (et = EXPRESSION_TYPE_FUNCTION_ABS \<or> et = EXPRESSION_TYPE_FUNCTION_SQL_ERROR)) \<Longrightarrow>
   \<not> (2 \<le> length arguments \<and>
        (et = EXPRESSION_TYPE_FUNCTION_SUBSTRING_FROM \<or>
         et = EXPRESSION_TYPE_FUNCTION_SUBSTRING_FROM_FOR \<or>
         et = EXPRESSION_TYPE_FUNCTION_SQL_ERROR)) \<Longrightarrow>
   functionFactory et arguments =
     (None, if length arguments \<le> 1 then [Delete_vector] else [])"
  by (auto simp: functionFactory_def split: nat.splits)

lemma functionFactory_deletes_no_node:
  "Delete_node c \<notin> set (snd (functionFactory et arguments))"
  by (simp add: functionFactory_def split: nat.splits)

text \<open>
  Deleting the node the factory has built deletes every child and, for the n-ary node,
  the container: with a node, the ownership of the arguments has passed to it.
\<close>

lemma delete_expression_node: "Delete_node c \<in> set (delete_expression c)"
  by (cases c) simp_all

lemma delete_expression_General_children:
  "c \<in> set m_args \<Longrightarrow>
   Delete_node c \<in> set (delete_expression (GeneralFunctionExpression E m_args)) \<and>
   Delete_vector \<in> set (delete_expression (GeneralFunctionExpression E m_args))"
  using delete_expression_node by fastforce

text \<open>
  C1. For an identity registered at the arity of the argument list, the factory returns
  a node of the variant of that arity: the unary node over the single argument for
  absolute value and forced error at length 1, the n-ary node over the argument list for
  the two substring forms and forced error at length 2 or more. The \<^verbatim>\<open>eval\<close> of the
  unary node evaluates the child and applies \<open>callUnary\<close> of the identity to its value;
  the \<^verbatim>\<open>eval\<close> of the n-ary node evaluates the children from the left and applies
  \<open>call\<close> of the identity to the list of their values in order; an exception of a child
  is passed on. For the forced error, \<open>callUnary\<close> and \<open>call\<close> are the two functions of
  the file.
\<close>

theorem functionFactory_registered:
  "(length arguments = 1 \<and>
      (et = EXPRESSION_TYPE_FUNCTION_ABS \<or> et = EXPRESSION_TYPE_FUNCTION_SQL_ERROR) \<longrightarrow>
      functionFactory et arguments =
        (Some (UnaryFunctionExpression et (arguments ! 0)), [Delete_vector]) \<and>
      eval X (UnaryFunctionExpression et (arguments ! 0)) tuple1 tuple2 s =
        (case eval X (arguments ! 0) tuple1 tuple2 s of
           (Inl e, s') \<Rightarrow> (Inl e, s')
         | (Inr v, s') \<Rightarrow> (callUnary X et v, s'))) \<and>
   (2 \<le> length arguments \<and>
      (et = EXPRESSION_TYPE_FUNCTION_SUBSTRING_FROM \<or>
       et = EXPRESSION_TYPE_FUNCTION_SUBSTRING_FROM_FOR \<or>
       et = EXPRESSION_TYPE_FUNCTION_SQL_ERROR) \<longrightarrow>
      functionFactory et arguments = (Some (GeneralFunctionExpression et arguments), []) \<and>
      eval X (GeneralFunctionExpression et arguments) tuple1 tuple2 s =
        (case children_left_to_right (\<lambda>c. eval X c tuple1 tuple2) arguments s of
           (Inl e, s') \<Rightarrow> (Inl e, s')
         | (Inr nValue, s') \<Rightarrow> (call X et nValue, s'))) \<and>
   callUnary X EXPRESSION_TYPE_FUNCTION_SQL_ERROR v = callUnary_SQL_ERROR X v \<and>
   call X EXPRESSION_TYPE_FUNCTION_SQL_ERROR vs = call_SQL_ERROR X vs"
  using functionFactory_unary [of arguments et] functionFactory_general [of arguments et]
  by (simp del: eval.simps(4) add: eval_General callUnary_def call_def)

theorem functionFactory_registered_witness:
  "functionFactory EXPRESSION_TYPE_FUNCTION_SQL_ERROR [probe 1 (Inr (integerValue 5))] =
     (Some (UnaryFunctionExpression EXPRESSION_TYPE_FUNCTION_SQL_ERROR
              (probe 1 (Inr (integerValue 5)))), [Delete_vector]) \<and>
   eval example_externals
     (UnaryFunctionExpression EXPRESSION_TYPE_FUNCTION_SQL_ERROR
        (probe 1 (Inr (integerValue 5)))) () () [] =
     (Inl (SQLException ''5'' ''forced by user''), [1]) \<and>
   functionFactory EXPRESSION_TYPE_FUNCTION_SQL_ERROR
     [probe 1 (Inr (integerValue 0)), probe 2 (Inr (nullValue VALUE_TYPE_VARCHAR))] =
     (Some (GeneralFunctionExpression EXPRESSION_TYPE_FUNCTION_SQL_ERROR
        [probe 1 (Inr (integerValue 0)), probe 2 (Inr (nullValue VALUE_TYPE_VARCHAR))]), []) \<and>
   eval example_externals
     (GeneralFunctionExpression EXPRESSION_TYPE_FUNCTION_SQL_ERROR
        [probe 1 (Inr (integerValue 0)), probe 2 (Inr (nullValue VALUE_TYPE_VARCHAR))]) () () [] =
     (Inr (integerValue 0), [1, 2])"
proof -
  have unary: "callUnary_SQL_ERROR example_externals (integerValue 5) =
      Inl (SQLException ''5'' ''forced by user'')"
    by (simp add: callUnary_SQL_ERROR_not_text integerValue_def example_externals_def
        snprintf_ld_5)
  have general: "call_SQL_ERROR example_externals
       [integerValue 0, nullValue VALUE_TYPE_VARCHAR] = Inr (integerValue 0)"
    by (simp add: call_SQL_ERROR_code [of _ 0] resolve_msgtext_null integerValue_def
        nullValue_def)
  from functionFactory_registered
      [of "[probe 1 (Inr (integerValue 5))]" EXPRESSION_TYPE_FUNCTION_SQL_ERROR
        example_externals "()" "()" "[]" "integerValue 5"]
    functionFactory_registered
      [of "[probe 1 (Inr (integerValue 0)), probe 2 (Inr (nullValue VALUE_TYPE_VARCHAR))]"
        EXPRESSION_TYPE_FUNCTION_SQL_ERROR example_externals "()" "()" "[]" _
        "[integerValue 0, nullValue VALUE_TYPE_VARCHAR]"]
    unary general
  show ?thesis
    by (simp del: eval.simps add: eval_probe)
qed

text \<open>
  C2. Two pairs that are not registered. For absolute value with two arguments the
  factory returns no node and deletes nothing: the container and both children stay
  allocated. For substring-with-start with one argument it returns no node and deletes
  the container only: the child stays allocated, and nothing refers to it any more. On
  no input does the factory delete a child node.
\<close>

theorem functionFactory_not_registered_keeps_children:
  "functionFactory EXPRESSION_TYPE_FUNCTION_ABS [c1, c2] = (None, []) \<and>
   functionFactory EXPRESSION_TYPE_FUNCTION_SUBSTRING_FROM [c1] = (None, [Delete_vector]) \<and>
   Delete_node c \<notin> set (snd (functionFactory et arguments))"
  by (simp add: functionFactory_def split: nat.splits)

text \<open>
  C7. The \<^verbatim>\<open>eval\<close> of an n-ary node evaluates its children from the left, each at most
  once, and stops at the first child that throws: the exception is passed on, the later
  children are not evaluated and \<open>call\<close> is not applied. When no child throws, every
  child is evaluated exactly once, in the declared order, and \<open>call\<close> of the identity is
  applied to the list of the values in that order. With children that log their
  evaluation: when all return, the log grows by the numbers of all children in order;
  when one throws, by the numbers of the children up to that one.
\<close>

theorem eval_GeneralFunctionExpression_left_to_right:
  "eval X (GeneralFunctionExpression E m_args) tuple1 tuple2 s =
     (case children_left_to_right (\<lambda>c. eval X c tuple1 tuple2) m_args s of
        (Inl e, s') \<Rightarrow> (Inl e, s')
      | (Inr nValue, s') \<Rightarrow> (call X E nValue, s')) \<and>
   eval X (GeneralFunctionExpression E (map (\<lambda>(k, v). probe k (Inr v)) kvs)) () () log =
     (call X E (map snd kvs), log @ map fst kvs) \<and>
   eval X (GeneralFunctionExpression E
       (map (\<lambda>(k, v). probe k (Inr v)) kvs @ probe k (Inl e) # rest)) () () log =
     (Inl e, log @ map fst kvs @ [k])"
  using eval_General [of X E m_args tuple1 tuple2 s] eval_probes_return [of X E kvs]
    eval_probe_throws [of X E kvs k e rest]
  by (simp del: eval.simps)

theorem eval_GeneralFunctionExpression_left_to_right_witness:
  "eval example_externals
     (GeneralFunctionExpression EXPRESSION_TYPE_FUNCTION_SQL_ERROR
        [probe 1 (Inr (integerValue 7)), probe 2 (Inr (nullValue VALUE_TYPE_VARCHAR))]) () () []
   = (Inl (SQLException ''7'' []), [1, 2])"
proof -
  have "call_SQL_ERROR example_externals [integerValue 7, nullValue VALUE_TYPE_VARCHAR] =
      Inl (SQLException ''7'' [])"
    by (simp add: call_SQL_ERROR_code [of _ 7] resolve_msgtext_null integerValue_def
        nullValue_def snprintf_ld_7)
  with eval_GeneralFunctionExpression_left_to_right
      [of example_externals EXPRESSION_TYPE_FUNCTION_SQL_ERROR
        "[probe 1 (Inr (integerValue 7)), probe 2 (Inr (nullValue VALUE_TYPE_VARCHAR))]"
        "()" "()" "[]"]
  show ?thesis
    by (simp del: eval.simps add: eval_probe call_def)
qed

text \<open>
  The first child is a forced-error node over the integer 5 and throws; the second child
  is never evaluated, its number is not in the log, and \<open>call\<close> is not applied.
\<close>

theorem eval_GeneralFunctionExpression_child_throws:
  "eval example_externals
     (GeneralFunctionExpression EXPRESSION_TYPE_FUNCTION_SQL_ERROR
        [UnaryFunctionExpression EXPRESSION_TYPE_FUNCTION_SQL_ERROR
           (probe 1 (Inr (integerValue 5))),
         probe 2 (Inr (nullValue VALUE_TYPE_VARCHAR))]) () () []
   = (Inl (SQLException ''5'' ''forced by user''), [1]) \<and>
   count_list (snd (eval example_externals
     (GeneralFunctionExpression EXPRESSION_TYPE_FUNCTION_SQL_ERROR
        [UnaryFunctionExpression EXPRESSION_TYPE_FUNCTION_SQL_ERROR
           (probe 1 (Inr (integerValue 5))),
         probe 2 (Inr (nullValue VALUE_TYPE_VARCHAR))]) () () [])) 2 = 0"
proof -
  have "callUnary_SQL_ERROR example_externals (integerValue 5) =
      Inl (SQLException ''5'' ''forced by user'')"
    by (simp add: callUnary_SQL_ERROR_not_text integerValue_def example_externals_def
        snprintf_ld_5)
  then show ?thesis
    by (simp del: eval.simps(4) add: eval_General eval_probe callUnary_def)
qed

text \<open>
  C9. \<open>call\<close> for the forced error fails its assertion exactly on the lists whose length
  is not 2. The factory builds the n-ary forced-error node for every list of 3 or more
  children, and the \<^verbatim>\<open>eval\<close> of such a node fails the assertion whenever all children
  return a value; when a child throws, its exception is passed on and the assertion is
  not reached.
\<close>

theorem eval_SQL_ERROR_three_or_more:
  "3 \<le> length m_args \<Longrightarrow>
   functionFactory EXPRESSION_TYPE_FUNCTION_SQL_ERROR m_args =
     (Some (GeneralFunctionExpression EXPRESSION_TYPE_FUNCTION_SQL_ERROR m_args), []) \<and>
   eval X (GeneralFunctionExpression EXPRESSION_TYPE_FUNCTION_SQL_ERROR m_args) tuple1 tuple2 s =
     (case children_left_to_right (\<lambda>c. eval X c tuple1 tuple2) m_args s of
        (Inl e, s') \<Rightarrow> (Inl e, s')
      | (Inr nValue, s') \<Rightarrow> (Inl AssertionFailed, s')) \<and>
   (call_SQL_ERROR X arguments = Inl AssertionFailed) = (length arguments \<noteq> 2)"
proof (intro conjI)
  assume len: "3 \<le> length m_args"
  then show "functionFactory EXPRESSION_TYPE_FUNCTION_SQL_ERROR m_args =
     (Some (GeneralFunctionExpression EXPRESSION_TYPE_FUNCTION_SQL_ERROR m_args), [])"
    by (simp add: functionFactory_general)
  show "eval X (GeneralFunctionExpression EXPRESSION_TYPE_FUNCTION_SQL_ERROR m_args)
      tuple1 tuple2 s =
     (case children_left_to_right (\<lambda>c. eval X c tuple1 tuple2) m_args s of
        (Inl e, s') \<Rightarrow> (Inl e, s')
      | (Inr nValue, s') \<Rightarrow> (Inl AssertionFailed, s'))"
  proof (cases "children_left_to_right (\<lambda>c. eval X c tuple1 tuple2) m_args s")
    case (Pair r s')
    show ?thesis
    proof (cases r)
      case (Inl e)
      with Pair show ?thesis by (simp del: eval.simps(4) add: eval_General)
    next
      case (Inr nValue)
      with Pair have "length nValue = length m_args"
        by (simp add: children_left_to_right_length)
      with len have "length nValue \<noteq> 2" by simp
      then have "call X EXPRESSION_TYPE_FUNCTION_SQL_ERROR nValue = Inl AssertionFailed"
        by (simp add: call_def call_SQL_ERROR_assert)
      with Pair Inr show ?thesis by (simp del: eval.simps(4) add: eval_General)
    qed
  qed
  show "(call_SQL_ERROR X arguments = Inl AssertionFailed) = (length arguments \<noteq> 2)"
    by (rule call_SQL_ERROR_assert)
qed

theorem eval_SQL_ERROR_three_or_more_witness:
  "3 \<le> length [probe 1 (Inr (integerValue 7)), probe 2 (Inr (nullValue VALUE_TYPE_VARCHAR)),
                 probe 3 (Inr (integerValue 0))] \<and>
   functionFactory EXPRESSION_TYPE_FUNCTION_SQL_ERROR
     [probe 1 (Inr (integerValue 7)), probe 2 (Inr (nullValue VALUE_TYPE_VARCHAR)),
      probe 3 (Inr (integerValue 0))] =
     (Some (GeneralFunctionExpression EXPRESSION_TYPE_FUNCTION_SQL_ERROR
        [probe 1 (Inr (integerValue 7)), probe 2 (Inr (nullValue VALUE_TYPE_VARCHAR)),
         probe 3 (Inr (integerValue 0))]), []) \<and>
   eval example_externals
     (GeneralFunctionExpression EXPRESSION_TYPE_FUNCTION_SQL_ERROR
        [probe 1 (Inr (integerValue 7)), probe 2 (Inr (nullValue VALUE_TYPE_VARCHAR)),
         probe 3 (Inr (integerValue 0))]) () () []
   = (Inl AssertionFailed, [1, 2, 3])"
  using eval_SQL_ERROR_three_or_more
    [of "[probe 1 (Inr (integerValue 7)), probe 2 (Inr (nullValue VALUE_TYPE_VARCHAR)),
          probe 3 (Inr (integerValue 0))]" example_externals "()" "()" "[]"]
  by (simp del: eval.simps add: eval_probe)

text \<open>
  A forced-error node with three children that the factory builds; the first child
  throws, and the \<^verbatim>\<open>eval\<close> of the node ends with that exception, not with the failed
  assertion.
\<close>

theorem eval_SQL_ERROR_three_child_throws:
  "functionFactory EXPRESSION_TYPE_FUNCTION_SQL_ERROR
     [UnaryFunctionExpression EXPRESSION_TYPE_FUNCTION_SQL_ERROR (probe 1 (Inr (integerValue 5))),
      probe 2 (Inr (nullValue VALUE_TYPE_VARCHAR)), probe 3 (Inr (integerValue 0))] =
     (Some (GeneralFunctionExpression EXPRESSION_TYPE_FUNCTION_SQL_ERROR
        [UnaryFunctionExpression EXPRESSION_TYPE_FUNCTION_SQL_ERROR
           (probe 1 (Inr (integerValue 5))),
         probe 2 (Inr (nullValue VALUE_TYPE_VARCHAR)), probe 3 (Inr (integerValue 0))]), []) \<and>
   eval example_externals
     (GeneralFunctionExpression EXPRESSION_TYPE_FUNCTION_SQL_ERROR
        [UnaryFunctionExpression EXPRESSION_TYPE_FUNCTION_SQL_ERROR
           (probe 1 (Inr (integerValue 5))),
         probe 2 (Inr (nullValue VALUE_TYPE_VARCHAR)), probe 3 (Inr (integerValue 0))]) () () []
   = (Inl (SQLException ''5'' ''forced by user''), [1]) \<and>
   fst (eval example_externals
     (GeneralFunctionExpression EXPRESSION_TYPE_FUNCTION_SQL_ERROR
        [UnaryFunctionExpression EXPRESSION_TYPE_FUNCTION_SQL_ERROR
           (probe 1 (Inr (integerValue 5))),
         probe 2 (Inr (nullValue VALUE_TYPE_VARCHAR)), probe 3 (Inr (integerValue 0))]) () () [])
   \<noteq> Inl AssertionFailed"
proof -
  have "callUnary_SQL_ERROR example_externals (integerValue 5) =
      Inl (SQLException ''5'' ''forced by user'')"
    by (simp add: callUnary_SQL_ERROR_not_text integerValue_def example_externals_def
        snprintf_ld_5)
  then show ?thesis
    by (simp del: eval.simps(4) add: functionFactory_def eval_General eval_probe callUnary_def)
qed

section \<open>The accumulated messages\<close>

lemma foldl_separator:
  "foldl (\<lambda>builder q. builder @ separator # q) p ps = p @ concat (map ((#) separator) ps)"
  by (induction ps arbitrary: p) simp_all

lemma newline_joined_Cons:
  "newline_joined (p # ps) = p @ concat (map ((#) (CHR 0x0A)) ps)"
  by (induction ps arbitrary: p) simp_all

lemma Joiner_join_newline: "Joiner_join (CHR 0x0A) parts = newline_joined parts"
  by (cases parts) (simp_all add: Joiner_join_def foldl_separator newline_joined_Cons)

lemma non_null_empty: "(non_null msgs = []) = (\<forall>m. Some m \<notin> set msgs)"
  by (induction msgs rule: non_null.induct) auto

lemma m_errors_fold:
  "m_errors (fold addErrorMessage msgs this) =
     (if non_null msgs = [] then m_errors this
      else Some ((case m_errors this of None \<Rightarrow> [] | Some errors \<Rightarrow> errors) @ non_null msgs))"
  by (induction msgs arbitrary: this rule: non_null.induct)
     (auto simp: addErrorMessage_def split: option.splits)

text \<open>
  C8. Adding a null message leaves the accumulator as it is. After any sequence of
  \<open>addErrorMessage\<close> calls on a new accumulator, \<open>hasErrors\<close> is true exactly when one of
  the messages was not null, and \<open>getErrorMessage\<close> is null when none was and otherwise
  the messages that were not null, in the order they were added, with a single newline
  between two neighbours.
\<close>

theorem SchedulerValidationErrors_accumulates:
  "addErrorMessage None this = this \<and>
   hasErrors (fold addErrorMessage msgs new_SchedulerValidationErrors) =
     (\<exists>m. Some m \<in> set msgs) \<and>
   getErrorMessage (fold addErrorMessage msgs new_SchedulerValidationErrors) =
     (if non_null msgs = [] then None else Some (newline_joined (non_null msgs)))"
  by (simp add: addErrorMessage_def hasErrors_def getErrorMessage_def m_errors_fold
      new_SchedulerValidationErrors_def Joiner_join_newline non_null_empty)

theorem SchedulerValidationErrors_accumulates_witness:
  "hasErrors (fold addErrorMessage [None, Some ''a'', None, Some ''bc'']
      new_SchedulerValidationErrors) \<and>
   getErrorMessage (fold addErrorMessage [None, Some ''a'', None, Some ''bc'']
      new_SchedulerValidationErrors) = Some [CHR ''a'', CHR 0x0A, CHR ''b'', CHR ''c''] \<and>
   \<not> hasErrors (fold addErrorMessage [None, None] new_SchedulerValidationErrors) \<and>
   getErrorMessage (fold addErrorMessage [None, None] new_SchedulerValidationErrors) = None"
proof -
  let ?some = "fold addErrorMessage [None, Some ''a'', None, Some ''bc'']
      new_SchedulerValidationErrors"
  let ?none = "fold addErrorMessage [None, None] new_SchedulerValidationErrors"
  from SchedulerValidationErrors_accumulates
    [of new_SchedulerValidationErrors "[None, Some ''a'', None, Some ''bc'']"]
  have some: "hasErrors ?some = (\<exists>m. Some m \<in> set [None, Some ''a'', None, Some ''bc''])"
    "getErrorMessage ?some =
       (if non_null [None, Some ''a'', None, Some ''bc''] = [] then None
        else Some (newline_joined (non_null [None, Some ''a'', None, Some ''bc''])))"
    by blast+
  from SchedulerValidationErrors_accumulates [of new_SchedulerValidationErrors "[None, None]"]
  have none: "hasErrors ?none = (\<exists>m::string. Some m \<in> set [None, None])"
    "getErrorMessage ?none =
       (if non_null [None, None] = [] then None
        else Some (newline_joined (non_null [None, None])))"
    by blast+
  have "hasErrors ?some" unfolding some(1) by auto
  moreover have "getErrorMessage ?some = Some [CHR ''a'', CHR 0x0A, CHR ''b'', CHR ''c'']"
    unfolding some(2) by simp
  moreover have "\<not> hasErrors ?none" unfolding none(1) by simp
  moreover have "getErrorMessage ?none = None" unfolding none(2) by simp
  ultimately show ?thesis by blast
qed

end
